theory Spec2Isabelle
  imports Main "HOL-Library.Sublist"
begin

section \<open>JavaScript strings and values\<close>

text \<open>
  A string is the list of the bytes of its UTF-8 encoding. The role names, status names
  and header prefixes of the program are ASCII, and \<open>toLowerCase\<close> is modelled on
  ASCII: the letters \<open>A\<close>..\<open>Z\<close> are lowered.
\<close>

definition toLowerChar :: "char \<Rightarrow> char" where
  "toLowerChar c =
     (let n = (of_char c :: nat) in if 65 \<le> n \<and> n \<le> 90 then char_of (n + 32) else c)"

definition toLowerCase :: "string \<Rightarrow> string" where
  "toLowerCase s = map toLowerChar s"

text \<open>
  \<open>String.prototype.trim\<close> strips white space and line terminators from both ends:
  U+0009 to U+000D, U+0020, U+00A0, U+1680, U+2000 to U+200A, U+2028, U+2029, U+202F,
  U+205F, U+3000 and U+FEFF. \<open>white_space\<close> lists their encodings. An encoding that is
  a prefix or a suffix of a well-formed string is a character of that string, so the
  characters are stripped by stripping their encodings.
\<close>

definition white_space :: "string list" where
  "white_space =
     [[CHR 0x09], [CHR 0x0A], [CHR 0x0B], [CHR 0x0C], [CHR 0x0D], [CHR 0x20],
      [CHR 0xC2, CHR 0xA0],
      [CHR 0xE1, CHR 0x9A, CHR 0x80],
      [CHR 0xE2, CHR 0x80, CHR 0x80], [CHR 0xE2, CHR 0x80, CHR 0x81],
      [CHR 0xE2, CHR 0x80, CHR 0x82], [CHR 0xE2, CHR 0x80, CHR 0x83],
      [CHR 0xE2, CHR 0x80, CHR 0x84], [CHR 0xE2, CHR 0x80, CHR 0x85],
      [CHR 0xE2, CHR 0x80, CHR 0x86], [CHR 0xE2, CHR 0x80, CHR 0x87],
      [CHR 0xE2, CHR 0x80, CHR 0x88], [CHR 0xE2, CHR 0x80, CHR 0x89],
      [CHR 0xE2, CHR 0x80, CHR 0x8A],
      [CHR 0xE2, CHR 0x80, CHR 0xA8], [CHR 0xE2, CHR 0x80, CHR 0xA9],
      [CHR 0xE2, CHR 0x80, CHR 0xAF],
      [CHR 0xE2, CHR 0x81, CHR 0x9F],
      [CHR 0xE3, CHR 0x80, CHR 0x80],
      [CHR 0xEF, CHR 0xBB, CHR 0xBF]]"

text \<open>Strip, again and again, whichever of the given non-empty words the string begins
  with.\<close>

function strip_prefixes :: "string list \<Rightarrow> string \<Rightarrow> string" where
  "strip_prefixes ws s =
     (case find (\<lambda>w. w \<noteq> [] \<and> prefix w s) ws of
        None \<Rightarrow> s
      | Some w \<Rightarrow> strip_prefixes ws (drop (length w) s))"
  by pat_completeness auto
termination
proof (relation "measure (\<lambda>(ws, s). length s)")
  show "wf (measure (\<lambda>(ws, s). length s))"
    by simp
next
  fix ws :: "string list" and s w :: string
  assume "find (\<lambda>w. w \<noteq> [] \<and> prefix w s) ws = Some w"
  then have "w \<noteq> []" and "prefix w s"
    by (auto simp: find_Some_iff)
  then have "s \<noteq> []"
    by auto
  with \<open>w \<noteq> []\<close> show "((ws, drop (length w) s), (ws, s)) \<in> measure (\<lambda>(ws, s). length s)"
    by simp
qed

definition trimStart :: "string \<Rightarrow> string" where
  "trimStart s = strip_prefixes white_space s"

definition trimEnd :: "string \<Rightarrow> string" where
  "trimEnd s = rev (strip_prefixes (map rev white_space) (rev s))"

definition trim :: "string \<Rightarrow> string" where
  "trim s = trimEnd (trimStart s)"

text \<open>The string begins or ends with a white-space character.\<close>

definition spaced :: "string \<Rightarrow> bool" where
  "spaced s = list_ex (\<lambda>w. prefix w s \<or> suffix w s) white_space"

text \<open>\<open>s.split(c)\<close> for a one-character separator: \<open>"".split(" ")\<close> is \<open>[""]\<close>.\<close>

fun split :: "char \<Rightarrow> string \<Rightarrow> string list" where
  "split c [] = [[]]"
| "split c (x # xs) =
     (if x = c then [] # split c xs
      else (case split c xs of [] \<Rightarrow> [[x]] | w # ws \<Rightarrow> (x # w) # ws))"

text \<open>\<open>xs[i]\<close>: reading past the end gives \<open>undefined\<close>, here \<open>None\<close>.\<close>

fun at :: "'a list \<Rightarrow> nat \<Rightarrow> 'a option" where
  "at [] i = None"
| "at (x # xs) 0 = Some x"
| "at (x # xs) (Suc i) = at xs i"

text \<open>
  A string-valued property that may be absent: \<open>None\<close> is \<open>undefined\<close>. Such a value is
  truthy when it is present and not the empty string; \<open>a || b\<close> is \<open>a\<close> when \<open>a\<close> is
  truthy and \<open>b\<close> otherwise.
\<close>

fun truthy :: "string option \<Rightarrow> bool" where
  "truthy None = False"
| "truthy (Some s) = (s \<noteq> [])"

definition or_else :: "string option \<Rightarrow> string option \<Rightarrow> string option" where
  "or_else a b = (if truthy a then a else b)"

text \<open>The string that a present property holds; an absent one is written only where
  the handler has already checked that the property is truthy, or as the empty string
  that the schema's validation rejects like \<open>undefined\<close>.\<close>

definition string_of :: "string option \<Rightarrow> string" where
  "string_of v = (case v of None \<Rightarrow> [] | Some s \<Rightarrow> s)"

text \<open>
  A value of a JSON request body, for the one field whose falsy forms matter
  (\<open>status\<close> of \<open>PATCH /:id\<close>). \<open>JUndefined\<close> is a missing property. A number is falsy
  exactly when it is zero; integers stand for the numbers. \<open>JOther\<close> is an array or an
  object, always truthy; its argument is the string that the store's cast to \<open>String\<close>
  reads from it, \<open>None\<close> when the cast fails (as it does for an array and for a plain
  object).
\<close>

datatype json =
  JUndefined | JNull | JBool bool | JNum int | JStr string | JOther "string option"

fun json_truthy :: "json \<Rightarrow> bool" where
  "json_truthy JUndefined = False"
| "json_truthy JNull = False"
| "json_truthy (JBool b) = b"
| "json_truthy (JNum n) = (n \<noteq> 0)"
| "json_truthy (JStr s) = (s \<noteq> [])"
| "json_truthy (JOther c) = True"

section \<open>Roles, errors and identity claims\<close>

text \<open>
  Modelled from the spec: \<open>constants/roles.js\<close> is not among the sources. The spec gives
  the closed set of roles \<open>{admin, manager, staff, customer}\<close>, lower case, and
  \<open>ELEVATED = {admin, manager}\<close>; the routes use the same literals
  (\<open>requireRole(["admin", "manager"])\<close>, \<open>requireRole(...ELEVATED, "staff")\<close>).
\<close>

definition ROLES_ADMIN :: string where "ROLES_ADMIN = ''admin''"
definition ROLES_MANAGER :: string where "ROLES_MANAGER = ''manager''"
definition ROLES_STAFF :: string where "ROLES_STAFF = ''staff''"
definition ROLES_CUSTOMER :: string where "ROLES_CUSTOMER = ''customer''"

text \<open>
  The outcomes other than success, named as the spec names them, with the HTTP status
  the handlers send:
  \<^item> \<open>Missing\<close>: 401 "Unauthorized: missing token";
  \<^item> \<open>Invalid\<close>: 401 "Unauthorized: invalid token";
  \<^item> \<open>NoContext\<close>: 401 "Unauthorized: no user context";
  \<^item> \<open>Forbidden\<close>: 403;
  \<^item> \<open>MissingField\<close>: 400;
  \<^item> \<open>NotFound\<close>: 404;
  \<^item> \<open>StoreError\<close>: 500 from a handler's \<open>catch\<close>, when the store rejects a document;
  \<^item> \<open>TypeError\<close>: an exception thrown by a middleware outside any \<open>try\<close>.
\<close>

datatype error =
  Missing | Invalid | NoContext | Forbidden | MissingField | NotFound | StoreError | TypeError

type_synonym oid = string

text \<open>
  The decoded token, \<open>req.user\<close>. \<open>signToken\<close> issues \<open>id\<close> (always), \<open>role\<close> and
  \<open>email\<close> (absent when the user document has none).
\<close>

record claims =
  uid :: oid
  role :: "string option"
  email :: "string option"

section \<open>The role gate: \<open>requireRole\<close>\<close>

text \<open>
  \<open>requireRole\<close> takes rest parameters, so \<open>allowedRoles\<close> is the list of the
  arguments of the call. The routes pass strings (\<open>requireRole(ROLES.ADMIN,
  ROLES.MANAGER)\<close>) and, in \<open>admin.routes.js\<close>, one array
  (\<open>requireRole(["admin", "manager"])\<close>). A string has \<open>toLowerCase\<close>; an array has
  not, and calling it throws.
\<close>

datatype role_arg = RoleStr string | RoleArr "string list"

fun arg_toLowerCase :: "role_arg \<Rightarrow> string option" where
  "arg_toLowerCase (RoleStr s) = Some (toLowerCase s)"
| "arg_toLowerCase (RoleArr rs) = None"

definition requireRole :: "role_arg list \<Rightarrow> claims option \<Rightarrow> error + unit" where
  "requireRole allowedRoles user =
     (case user of
        None \<Rightarrow> Inl NoContext
      | Some u \<Rightarrow>
          (case role u of
             None \<Rightarrow> Inl NoContext
           | Some r \<Rightarrow>
               if r = [] then Inl NoContext
               else
                 (let userRole = toLowerCase r in
                  case those (map arg_toLowerCase allowedRoles) of
                    None \<Rightarrow> Inl TypeError
                  | Some normalizedAllowed \<Rightarrow>
                      if userRole \<notin> set normalizedAllowed then Inl Forbidden
                      else Inr ())))"

section \<open>The credential verifier: \<open>verifyToken\<close>\<close>

text \<open>
  \<open>jwt.verify\<close> with the server's secret is a parameter: it gives the decoded claims,
  or \<open>None\<close> when it throws (malformed token, wrong signature, expired). The header is
  \<open>None\<close> when the request has none.
\<close>

definition verifyToken ::
  "(string \<Rightarrow> claims option) \<Rightarrow> string option \<Rightarrow> error + claims" where
  "verifyToken jwt_verify authorization =
     (let authHeader = string_of (or_else authorization (Some []));
          token = (if prefix ''Bearer '' authHeader then at (split CHR '' '' authHeader) 1
                   else None)
      in if \<not> truthy token then Inl Missing
         else
           (case token of
              None \<Rightarrow> Inl Missing
            | Some tok \<Rightarrow>
                (case jwt_verify tok of
                   None \<Rightarrow> Inl Invalid
                 | Some decoded \<Rightarrow>
                     Inr (if truthy (role decoded)
                          then decoded\<lparr>role := map_option toLowerCase (role decoded)\<rparr>
                          else decoded))))"

section \<open>Tasks and the task store\<close>

text \<open>
  The \<open>Task\<close> schema. An identifier (\<open>ObjectId\<close>) is held as the string that its
  \<open>toString\<close> prints, 24 lower-case hexadecimal digits; \<open>assignedTo\<close> is \<open>None\<close> for
  \<open>null\<close>. The due date is opaque. The time stamps that the store maintains by itself
  are left out.
\<close>

record task =
  customerId :: oid
  customerName :: string
  title :: string
  description :: string
  dueDate :: string
  status :: string
  roleType :: string
  createdBy :: string
  assignedTo :: "oid option"
  assignedName :: string

text \<open>
  The cast of a string to an \<open>ObjectId\<close>, which the schema applies to what is assigned
  to \<open>assignedTo\<close>: a string of 24 hexadecimal digits, of either case, is the
  identifier that prints in lower case; any other string cannot be cast.
\<close>

definition isHexDigit :: "char \<Rightarrow> bool" where
  "isHexDigit c =
     (let n = (of_char c :: nat)
      in (48 \<le> n \<and> n \<le> 57) \<or> (65 \<le> n \<and> n \<le> 70) \<or> (97 \<le> n \<and> n \<le> 102))"

definition castObjectId :: "string \<Rightarrow> oid option" where
  "castObjectId s =
     (if length s = 24 \<and> list_all isHexDigit s then Some (toLowerCase s) else None)"

definition status_enum :: "string list" where
  "status_enum = [''pending'', ''assigned'', ''in progress'', ''completed'']"

definition roleType_enum :: "string list" where
  "roleType_enum = [''staff'', ''customer'']"

text \<open>
  What \<open>save\<close> validates, as the schema declares it: the required strings are not
  empty, and \<open>status\<close> and \<open>roleType\<close> are values of their \<open>enum\<close>. A document that
  fails makes \<open>save\<close> throw, and the handler's \<open>catch\<close> answers 500.
\<close>

definition schema_valid :: "task \<Rightarrow> bool" where
  "schema_valid t \<longleftrightarrow>
     customerName t \<noteq> [] \<and> title t \<noteq> [] \<and> createdBy t \<noteq> [] \<and>
     status t \<in> set status_enum \<and> roleType t \<in> set roleType_enum"

type_synonym task_store = "oid \<rightharpoonup> task"

definition save :: "task_store \<Rightarrow> oid \<Rightarrow> task \<Rightarrow> (error + task) \<times> task_store" where
  "save store i t =
     (if schema_valid t then (Inr t, store(i \<mapsto> t)) else (Inl StoreError, store))"

text \<open>
  The identity directory, \<open>User.findById\<close>. The handler reads \<open>user.fullName ||
  user.name\<close>.
\<close>

record user_doc =
  fullName :: "string option"
  name :: "string option"

type_synonym directory = "oid \<rightharpoonup> user_doc"

section \<open>\<open>POST /\<close>: create\<close>

text \<open>The fields of the request body that the handler reads; each is a JSON string or
  absent.\<close>

record create_body =
  body_title :: "string option"
  body_description :: "string option"
  body_dueDate :: "string option"
  body_roleType :: "string option"
  bodyCustomerId :: "string option"

text \<open>
  \<open>new Task({...})\<close> applies the schema's setters (\<open>trim\<close>, \<open>lowercase\<close>) and defaults
  (\<open>description\<close> \<open>""\<close>, \<open>assignedTo\<close> \<open>null\<close>, \<open>assignedName\<close> \<open>""\<close>). The identifier of
  the new document, \<open>new_id\<close>, is chosen by the store.
\<close>

definition create ::
  "directory \<Rightarrow> oid \<Rightarrow> task_store \<Rightarrow> claims \<Rightarrow> create_body \<Rightarrow> (error + task) \<times> task_store"
  where
  "create users new_id store user body =
     (let customerId =
            (if role user = Some ROLES_CUSTOMER then Some (uid user) else bodyCustomerId body)
      in if \<not> truthy customerId \<or> \<not> truthy (body_title body) \<or> \<not> truthy (body_dueDate body)
         then (Inl MissingField, store)
         else
           (case users (string_of customerId) of
              None \<Rightarrow> (Inl NotFound, store)
            | Some u \<Rightarrow>
                (let isManagerOrAdmin =
                       (role user = Some ROLES_ADMIN \<or> role user = Some ROLES_MANAGER);
                     isCustomer = (role user = Some ROLES_CUSTOMER)
                 in if \<not> isManagerOrAdmin \<and> \<not> isCustomer then (Inl Forbidden, store)
                    else
                      save store new_id
                        \<lparr>customerId = string_of customerId,
                         customerName = trim (string_of (or_else (fullName u) (name u))),
                         title = trim (string_of (body_title body)),
                         description = trim (string_of (body_description body)),
                         dueDate = string_of (body_dueDate body),
                         status = ''pending'',
                         roleType =
                           string_of (or_else (body_roleType body)
                             (Some (if isCustomer then ''customer'' else ''staff''))),
                         createdBy =
                           toLowerCase (trim (string_of
                             (or_else (email user) (Some ''system@factory.com'')))),
                         assignedTo = None,
                         assignedName = []\<rparr>)))"

section \<open>\<open>POST /assign\<close>: assign\<close>

text \<open>The request body: each field is a JSON string or absent.\<close>

record assign_body =
  requestId :: "string option"
  staffId :: "string option"
  staffName :: "string option"

text \<open>
  The handler, behind \<open>requireRole(ROLES.ADMIN, ROLES.MANAGER)\<close>. The four assignments
  go through the schema: \<open>assignedTo\<close> is cast to an \<open>ObjectId\<close> and \<open>assignedName\<close> is
  trimmed. When the cast fails the document is invalid, \<open>save\<close> throws, the handler's
  \<open>catch\<close> answers 500, and the store keeps the task as it was. The task is looked up
  under \<open>requestId\<close> as it is written: the keys of the store are identifiers as they
  are printed.
\<close>

definition assign_handler ::
  "task_store \<Rightarrow> assign_body \<Rightarrow> (error + task) \<times> task_store" where
  "assign_handler store body =
     (if \<not> truthy (requestId body) \<or> \<not> truthy (staffId body) \<or> \<not> truthy (staffName body)
      then (Inl MissingField, store)
      else
        (case store (string_of (requestId body)) of
           None \<Rightarrow> (Inl NotFound, store)
         | Some t \<Rightarrow>
             (case castObjectId (string_of (staffId body)) of
                None \<Rightarrow> (Inl StoreError, store)
              | Some sid \<Rightarrow>
                  save store (string_of (requestId body))
                    (t\<lparr>assignedTo := Some sid,
                       assignedName := trim (string_of (staffName body)),
                       roleType := ''staff'',
                       status := ''assigned''\<rparr>))))"

definition assign ::
  "task_store \<Rightarrow> claims \<Rightarrow> assign_body \<Rightarrow> (error + task) \<times> task_store" where
  "assign store user body =
     (case requireRole [RoleStr ROLES_ADMIN, RoleStr ROLES_MANAGER] (Some user) of
        Inl e \<Rightarrow> (Inl e, store)
      | Inr _ \<Rightarrow> assign_handler store body)"

section \<open>\<open>PATCH /:id\<close>: updateStatus\<close>

text \<open>
  The handler, behind \<open>verifyToken\<close> only. \<open>canUpdate\<close> is the handler's constant of
  that name; the identifiers are compared as strings, and \<open>task.assignedTo?.toString()\<close>
  of an unassigned task is \<open>undefined\<close>, which no actor's identifier equals.

  \<open>task.status = status || task.status\<close>: a falsy \<open>status\<close> keeps the old value, a string
  is written as it is, and an array or object as the string it is cast to. \<open>true\<close> and
  a non-zero number are cast to \<open>"true"\<close> and to a numeral, none of them a value of the
  enum, so that \<open>save\<close> rejects the document as it does when the cast fails.
\<close>

definition canUpdate :: "claims \<Rightarrow> task \<Rightarrow> bool" where
  "canUpdate user t \<longleftrightarrow>
     (role user = Some ROLES_CUSTOMER \<and> customerId t = uid user) \<or>
     (role user = Some ROLES_STAFF \<and> assignedTo t = Some (uid user))"

definition updateStatus ::
  "task_store \<Rightarrow> claims \<Rightarrow> oid \<Rightarrow> json \<Rightarrow> (error + task) \<times> task_store" where
  "updateStatus store user i new_status =
     (case store i of
        None \<Rightarrow> (Inl NotFound, store)
      | Some t \<Rightarrow>
          if role user \<in> {Some ROLES_CUSTOMER, Some ROLES_STAFF} \<and> \<not> canUpdate user t
          then (Inl Forbidden, store)
          else if role user \<in> {Some ROLES_CUSTOMER, Some ROLES_STAFF} \<and>
                  new_status \<noteq> JStr ''completed''
          then (Inl Forbidden, store)
          else if \<not> json_truthy new_status then save store i t
          else
            (case new_status of
               JStr s \<Rightarrow> save store i (t\<lparr>status := s\<rparr>)
             | JOther (Some s) \<Rightarrow> save store i (t\<lparr>status := s\<rparr>)
             | _ \<Rightarrow> (Inl StoreError, store)))"

section \<open>Sequences of requests\<close>

text \<open>
  A request to one of the three task routes, after \<open>verifyToken\<close> has attached the
  claims. \<open>Create\<close> carries the identifier that the store gives to the new document.
  Each handler leaves the store as it is when it answers with an error.
\<close>

datatype request =
  Create oid claims create_body
| Assign claims assign_body
| UpdateStatus claims oid json

fun step :: "directory \<Rightarrow> task_store \<Rightarrow> request \<Rightarrow> task_store" where
  "step users store (Create new_id user body) = snd (create users new_id store user body)"
| "step users store (Assign user body) = snd (assign store user body)"
| "step users store (UpdateStatus user i new_status) =
     snd (updateStatus store user i new_status)"

definition run :: "directory \<Rightarrow> task_store \<Rightarrow> request list \<Rightarrow> task_store" where
  "run users store reqs = foldl (step users) store reqs"

text \<open>The status that \<open>task.status = status || task.status\<close> writes for a truthy
  \<open>status\<close> that the store can cast; \<open>None\<close> when the old status stays or the cast
  fails.\<close>

fun written_status :: "json \<Rightarrow> string option" where
  "written_status (JStr s) = (if s = [] then None else Some s)"
| "written_status (JOther c) = c"
| "written_status _ = None"


section \<open>Notions of the specification\<close>

text \<open>
  The position of a status in the lifecycle \<open>pending \<rightarrow> assigned \<rightarrow> in progress \<rightarrow>
  completed\<close>, which is the order of the schema's \<open>enum\<close>.
\<close>

definition status_rank :: "string \<Rightarrow> nat" where
  "status_rank s = length (takeWhile (\<lambda>x. x \<noteq> s) status_enum)"

text \<open>
  Ownership in the spec's words: a customer owns a task iff \<open>task.customerId\<close> equals
  \<open>actor.id\<close>; a staff member owns it iff \<open>task.assignedTo\<close> equals \<open>actor.id\<close>.
\<close>

definition owns :: "claims \<Rightarrow> task \<Rightarrow> bool" where
  "owns actor t =
     (if role actor = Some ROLES_CUSTOMER then customerId t = uid actor
      else if role actor = Some ROLES_STAFF then assignedTo t = Some (uid actor)
      else False)"

text \<open>
  Three properties of a store. In \<open>valid_store\<close> every document passes the schema's
  validation, as every document does that \<open>save\<close> has written. In \<open>assigned_ok\<close>
  every document with an assignee has one of the statuses \<open>assigned\<close>, \<open>in progress\<close>,
  \<open>completed\<close>. In \<open>working_assigned\<close> every document with status \<open>assigned\<close> or
  \<open>in progress\<close> has an assignee.
\<close>

definition valid_store :: "task_store \<Rightarrow> bool" where
  "valid_store store \<longleftrightarrow> (\<forall>i t. store i = Some t \<longrightarrow> schema_valid t)"



section \<open>Sample data\<close>

text \<open>A customer, a manager, two staff members, and a directory that knows the customer.\<close>

definition carl :: claims where
  "carl = \<lparr>uid = ''c1'', role = Some ''customer'', email = Some ''carl@example.org''\<rparr>"

definition mona :: claims where
  "mona = \<lparr>uid = ''m1'', role = Some ''manager'', email = Some ''mona@example.org''\<rparr>"

definition sam_id :: oid where
  "sam_id = ''64b7f0c2a1d3e4f5a6b7c8d9''"

definition sam :: claims where
  "sam = \<lparr>uid = sam_id, role = Some ''staff'', email = Some ''sam@example.org''\<rparr>"

definition tess :: claims where
  "tess = \<lparr>uid = ''s2'', role = Some ''staff'', email = Some ''tess@example.org''\<rparr>"

definition people :: directory where
  "people = [''c1'' \<mapsto> \<lparr>fullName = Some ''Carl'', name = None\<rparr>]"

definition pickup :: task where
  "pickup =
     \<lparr>customerId = ''c1'', customerName = ''Carl'', title = ''Pickup'', description = [],
      dueDate = ''2025-01-01'', status = ''pending'', roleType = ''customer'',
      createdBy = ''carl@example.org'', assignedTo = None, assignedName = []\<rparr>"

definition pickup_body :: create_body where
  "pickup_body =
     \<lparr>body_title = Some ''Pickup'', body_description = None,
      body_dueDate = Some ''2025-01-01'', body_roleType = None, bodyCustomerId = None\<rparr>"

definition done_pickup :: task where
  "done_pickup = pickup\<lparr>status := ''completed''\<rparr>"

definition staff_job_body :: create_body where
  "staff_job_body = pickup_body\<lparr>bodyCustomerId := Some ''c1''\<rparr>"

definition other_customer_body :: create_body where
  "other_customer_body = pickup_body\<lparr>bodyCustomerId := Some ''c9''\<rparr>"

definition to_sam :: assign_body where
  "to_sam = \<lparr>requestId = Some ''t1'', staffId = Some sam_id, staffName = Some ''Sam''\<rparr>"

text \<open>The same assignment with a space before the name, with the identifier in upper
  case, and with a staff identifier that is no \<open>ObjectId\<close>.\<close>

definition to_sam_spaced :: assign_body where
  "to_sam_spaced = to_sam\<lparr>staffName := Some '' Sam''\<rparr>"

definition to_sam_upper :: assign_body where
  "to_sam_upper = to_sam\<lparr>staffId := Some ''64B7F0C2A1D3E4F5A6B7C8D9''\<rparr>"

definition to_xyz :: assign_body where
  "to_xyz = to_sam\<lparr>staffId := Some ''xyz''\<rparr>"

text \<open>A verifier that knows one token, issued with an upper-case role.\<close>

definition one_token :: "string \<Rightarrow> claims option" where
  "one_token tok =
     (if tok = ''abc'' then Some \<lparr>uid = ''m1'', role = Some ''Manager'', email = None\<rparr>
      else None)"

section \<open>Facts about strings\<close>

lemma split_first:
  "split c s =
     takeWhile (\<lambda>x. x \<noteq> c) s #
       (case dropWhile (\<lambda>x. x \<noteq> c) s of [] \<Rightarrow> [] | _ # r \<Rightarrow> split c r)"
  by (induction s) (auto split: list.splits)

text \<open>After the prefix \<open>"Bearer "\<close>, the second piece of the header is the text up to
  the next space.\<close>

lemma bearer_token:
  assumes "prefix ''Bearer '' h"
  shows "at (split CHR '' '' h) 1 = Some (takeWhile (\<lambda>x. x \<noteq> CHR '' '') (drop 7 h))"
proof -
  from assms obtain r where h: "h = ''Bearer '' @ r"
    by (auto simp: prefix_def)
  have "at (split CHR '' '' (''Bearer '' @ r)) 1 = at (split CHR '' '' r) 0"
    by simp
  also have "\<dots> = Some (takeWhile (\<lambda>x. x \<noteq> CHR '' '') r)"
    by (subst split_first) simp
  finally show ?thesis
    by (simp add: h)
qed

lemma string_of_or_empty: "string_of (or_else a (Some [])) = string_of a"
  by (cases a) (auto simp: or_else_def string_of_def)

lemma those_RoleStr: "those (map arg_toLowerCase (map RoleStr rs)) = Some (map toLowerCase rs)"
  by (induction rs) auto

lemma lower_manager: "toLowerCase ''manager'' = ''manager''"
  by code_simp

lemma lower_Manager: "toLowerCase ''Manager'' = ''manager''"
  by code_simp

lemma lower_ADMIN: "toLowerCase ''ADMIN'' = ''admin''"
  by code_simp

lemma lower_admin: "toLowerCase ''admin'' = ''admin''"
  by code_simp

lemma lower_staff: "toLowerCase ''staff'' = ''staff''"
  by code_simp

section \<open>The role gate\<close>

text \<open>
  Claim C4. For every claim set and every list of role strings passed as the allowed
  roles, \<open>requireRole\<close> answers \<open>NoContext\<close> when the claims are absent or their role is
  absent or empty; otherwise it lets the request through exactly when the lower-cased
  role is among the lower-cased allowed roles, and answers \<open>Forbidden\<close> if it is not.
\<close>

theorem requireRole_authorize:
  "requireRole (map RoleStr allowed) user =
     (case user of
        None \<Rightarrow> Inl NoContext
      | Some u \<Rightarrow>
          if \<not> truthy (role u) then Inl NoContext
          else if toLowerCase (string_of (role u)) \<in> set (map toLowerCase allowed) then Inr ()
          else Inl Forbidden)"
proof (cases user)
  case None
  then show ?thesis
    by (simp add: requireRole_def)
next
  case (Some u)
  show ?thesis
  proof (cases "role u")
    case None
    with Some show ?thesis
      by (simp add: requireRole_def)
  next
    case (Some r)
    with \<open>user = Some u\<close> show ?thesis
      by (simp del: map_map add: requireRole_def those_RoleStr string_of_def)
  qed
qed

theorem requireRole_authorize_witness:
  "requireRole [RoleStr ''ADMIN'', RoleStr ''Manager''] (Some mona) = Inr () \<and>
   requireRole [RoleStr ''ADMIN'', RoleStr ''Manager''] (Some sam) = Inl Forbidden \<and>
   requireRole [RoleStr ''ADMIN'', RoleStr ''Manager'']
     (Some \<lparr>uid = ''x'', role = Some [], email = None\<rparr>) = Inl NoContext \<and>
   requireRole [RoleStr ''ADMIN'', RoleStr ''Manager''] None = Inl NoContext"
  using requireRole_authorize [of "[''ADMIN'', ''Manager'']" "Some mona"]
    requireRole_authorize [of "[''ADMIN'', ''Manager'']" "Some sam"]
    requireRole_authorize
      [of "[''ADMIN'', ''Manager'']" "Some \<lparr>uid = ''x'', role = Some [], email = None\<rparr>"]
    requireRole_authorize [of "[''ADMIN'', ''Manager'']" None]
  by (simp add: mona_def sam_def string_of_def lower_manager lower_Manager lower_ADMIN
      lower_staff)

text \<open>
  Claim C9. The gate called with the roles as separate strings and the gate called with
  the same roles in one array should decide alike. They do not: for the manager
  \<open>mona\<close>, \<open>requireRole("admin", "manager")\<close> lets the request through, and
  \<open>requireRole(["admin", "manager"])\<close>, the call of \<open>admin.routes.js\<close>, throws a
  \<open>TypeError\<close>, because the one allowed "role" is an array and has no \<open>toLowerCase\<close>.
\<close>

theorem requireRole_array_argument_throws:
  "requireRole [RoleStr ''admin'', RoleStr ''manager''] (Some mona) = Inr () \<and>
   requireRole [RoleArr [''admin'', ''manager'']] (Some mona) = Inl TypeError"
  by (simp add: requireRole_def mona_def lower_manager lower_admin)

section \<open>The credential verifier\<close>

text \<open>
  Claim C5, as the code has it. A header that is absent or does not begin with
  \<open>"Bearer "\<close> gives \<open>Missing\<close>. For a header with the prefix, the token is the text
  between the prefix and the next space (or the end): when it is empty the answer is
  \<open>Missing\<close> as well, and when it is not empty and \<open>jwt.verify\<close> rejects it (malformed,
  wrong signature or expired) the answer is \<open>Invalid\<close>; in none of these cases are
  claims produced.
\<close>

theorem verifyToken_errors:
  "(\<not> prefix ''Bearer '' (string_of authorization) \<longrightarrow>
      verifyToken jwt_verify authorization = Inl Missing) \<and>
   (prefix ''Bearer '' (string_of authorization) \<and>
    takeWhile (\<lambda>x. x \<noteq> CHR '' '') (drop 7 (string_of authorization)) = [] \<longrightarrow>
      verifyToken jwt_verify authorization = Inl Missing) \<and>
   (prefix ''Bearer '' (string_of authorization) \<and>
    takeWhile (\<lambda>x. x \<noteq> CHR '' '') (drop 7 (string_of authorization)) \<noteq> [] \<and>
    jwt_verify (takeWhile (\<lambda>x. x \<noteq> CHR '' '') (drop 7 (string_of authorization))) = None \<longrightarrow>
      verifyToken jwt_verify authorization = Inl Invalid)"
proof (cases "prefix ''Bearer '' (string_of authorization)")
  case False
  then show ?thesis
    by (simp add: verifyToken_def string_of_or_empty)
next
  case True
  from bearer_token [OF True] True show ?thesis
    by (simp add: verifyToken_def string_of_or_empty Let_def)
qed

theorem verifyToken_errors_witness:
  "verifyToken one_token (Some ''bearer abc'') = Inl Missing \<and>
   verifyToken one_token None = Inl Missing \<and>
   verifyToken one_token (Some ''Bearer  abc'') = Inl Missing \<and>
   verifyToken one_token (Some ''Bearer abd'') = Inl Invalid"
  using verifyToken_errors [of "Some ''bearer abc''" one_token]
    verifyToken_errors [of None one_token]
    verifyToken_errors [of "Some ''Bearer  abc''" one_token]
    verifyToken_errors [of "Some ''Bearer abd''" one_token]
  by (simp add: string_of_def one_token_def)

text \<open>
  The claim as the spec states it asks for \<open>Invalid\<close> whenever the header has the prefix
  and its token is not a valid one. With two spaces after \<open>Bearer\<close> the token is empty,
  and the answer is \<open>Missing\<close>, even with a verifier that rejects every token.
\<close>

theorem verifyToken_empty_token_counterexample:
  "prefix ''Bearer '' ''Bearer  abc'' \<and>
   verifyToken Map.empty (Some ''Bearer  abc'') = Inl Missing \<and>
   verifyToken Map.empty (Some ''Bearer  abc'') \<noteq> Inl Invalid"
  by (simp add: verifyToken_def or_else_def string_of_def)

section \<open>Facts about the handlers\<close>

lemmas roles_defs = ROLES_ADMIN_def ROLES_MANAGER_def ROLES_STAFF_def ROLES_CUSTOMER_def

lemma trim_Pickup: "trim ''Pickup'' = ''Pickup''"
  by code_simp

lemma trim_Carl: "trim ''Carl'' = ''Carl''"
  by code_simp

lemma trim_Sam: "trim ''Sam'' = ''Sam''"
  by code_simp

lemma trim_spaced_Sam: "trim '' Sam'' = ''Sam''"
  by code_simp

lemma trim_empty: "trim [] = []"
  by code_simp

lemma trim_mona: "trim ''mona@example.org'' = ''mona@example.org''"
  by code_simp

lemma trim_carl: "trim ''carl@example.org'' = ''carl@example.org''"
  by code_simp

lemma lower_mona: "toLowerCase ''mona@example.org'' = ''mona@example.org''"
  by code_simp

lemma lower_carl: "toLowerCase ''carl@example.org'' = ''carl@example.org''"
  by code_simp

lemma cast_sam_id:
  "castObjectId ''64b7f0c2a1d3e4f5a6b7c8d9'' = Some ''64b7f0c2a1d3e4f5a6b7c8d9''"
  by code_simp

lemma cast_upper_sam_id:
  "castObjectId ''64B7F0C2A1D3E4F5A6B7C8D9'' = Some ''64b7f0c2a1d3e4f5a6b7c8d9''"
  by code_simp

lemma cast_xyz: "castObjectId ''xyz'' = None"
  by code_simp

lemmas eval_defs = create_def assign_def assign_handler_def updateStatus_def requireRole_def
  save_def canUpdate_def schema_valid_def status_enum_def roleType_enum_def string_of_def
  or_else_def run_def people_def pickup_def pickup_body_def staff_job_body_def
  other_customer_body_def done_pickup_def to_sam_def to_sam_spaced_def to_sam_upper_def
  to_xyz_def sam_id_def cast_sam_id cast_upper_sam_id cast_xyz
  carl_def mona_def sam_def tess_def roles_defs
  trim_Pickup trim_Carl trim_Sam trim_spaced_Sam trim_empty trim_mona trim_carl
  lower_mona lower_carl lower_admin lower_manager

lemma strip_prefixes_none:
  assumes "\<forall>w \<in> set ws. \<not> prefix w s"
  shows "strip_prefixes ws s = s"
proof -
  have "find (\<lambda>w. w \<noteq> [] \<and> prefix w s) ws = None"
    using assms by (simp add: find_None_iff)
  then show ?thesis
    by (subst strip_prefixes.simps) simp
qed

lemma trim_unspaced:
  assumes "\<not> spaced s"
  shows "trim s = s"
proof -
  from assms have n: "\<forall>w \<in> set white_space. \<not> prefix w s \<and> \<not> suffix w s"
    by (simp add: spaced_def list_ex_iff)
  then have "strip_prefixes white_space s = s"
    by (intro strip_prefixes_none) simp
  moreover from n have "\<forall>w \<in> set (map rev white_space). \<not> prefix w (rev s)"
    by (auto simp: suffix_to_prefix)
  then have "strip_prefixes (map rev white_space) (rev s) = rev s"
    by (rule strip_prefixes_none)
  ultimately show ?thesis
    by (simp add: trim_def trimStart_def trimEnd_def)
qed

lemma gate_elevated:
  "role user = Some ROLES_ADMIN \<or> role user = Some ROLES_MANAGER \<Longrightarrow>
   requireRole [RoleStr ROLES_ADMIN, RoleStr ROLES_MANAGER] (Some user) = Inr ()"
  by (auto simp: requireRole_def roles_defs lower_admin lower_manager)

lemma owns_canUpdate:
  "role user = Some ROLES_CUSTOMER \<or> role user = Some ROLES_STAFF \<Longrightarrow>
   canUpdate user t = owns user t"
  by (auto simp: canUpdate_def owns_def roles_defs)

lemma rank_completed:
  "s \<in> set status_enum \<Longrightarrow> status_rank s \<le> status_rank ''completed''"
  by (auto simp: status_enum_def status_rank_def)

text \<open>What a successful answer of each handler says, and that an error leaves the store
  alone.\<close>

lemma create_Inr:
  assumes "create users new_id store user body = (Inr t, store')"
  shows "status t = ''pending'' \<and> assignedTo t = None \<and> schema_valid t \<and>
         store' = store(new_id \<mapsto> t)"
  using assms
  by (auto simp: create_def Let_def save_def split: if_splits option.splits)

lemma assign_Inr:
  assumes "assign store user body = (Inr t', store')"
  shows "\<exists>t sid. store (string_of (requestId body)) = Some t \<and>
             castObjectId (string_of (staffId body)) = Some sid \<and>
             t' = t\<lparr>assignedTo := Some sid,
                     assignedName := trim (string_of (staffName body)),
                     roleType := ''staff'', status := ''assigned''\<rparr> \<and>
             schema_valid t' \<and>
             store' = store(string_of (requestId body) \<mapsto> t')"
  using assms
  by (auto simp: assign_def assign_handler_def save_def
      split: sum.splits if_splits option.splits)

lemma updateStatus_Inr:
  assumes "updateStatus store user i new_status = (Inr t', store')"
  shows "\<exists>t. store i = Some t \<and> t' = t\<lparr>status := status t'\<rparr> \<and> schema_valid t' \<and>
             (status t' = status t \<or> written_status new_status = Some (status t')) \<and>
             store' = store(i \<mapsto> t')"
  using assms
  by (auto simp: updateStatus_def save_def split: option.splits if_splits json.splits)

lemma updateStatus_Inr_owner:
  assumes "role user = Some ROLES_CUSTOMER \<or> role user = Some ROLES_STAFF"
    and "updateStatus store user i new_status = (Inr t', store')"
  shows "status t' = ''completed''"
  using assms
  by (auto simp: updateStatus_def save_def split: option.splits if_splits)

lemma create_Inl: "create users new_id store user body = (Inl e, store') \<Longrightarrow> store' = store"
  by (auto simp: create_def Let_def save_def split: if_splits option.splits)

lemma assign_Inl: "assign store user body = (Inl e, store') \<Longrightarrow> store' = store"
  by (auto simp: assign_def assign_handler_def save_def
      split: sum.splits if_splits option.splits)

lemma updateStatus_Inl:
  "updateStatus store user i new_status = (Inl e, store') \<Longrightarrow> store' = store"
  by (auto simp: updateStatus_def save_def split: if_splits option.splits json.splits)

section \<open>Invariants of the store\<close>

text \<open>
  Each request either leaves the store as it was (the handler answers with an error),
  or writes a new or newly assigned document, or writes a stored document with nothing
  changed but its status. What is written passes the schema. So every document of a
  store reached from the empty one passes the schema (\<open>run_valid_store\<close>), which is
  what the theorems below assume of an existing task.
\<close>

lemma step_cases:
  obtains (unchanged) "step users store r = store"
  | (fresh) i t where "step users store r = store(i \<mapsto> t)" and "schema_valid t"
      and "(status t = ''pending'' \<and> assignedTo t = None) \<or>
           (status t = ''assigned'' \<and> assignedTo t \<noteq> None)"
  | (updated) user i new_status told t where "r = UpdateStatus user i new_status"
      and "store i = Some told" and "step users store r = store(i \<mapsto> t)"
      and "schema_valid t" and "assignedTo t = assignedTo told"
      and "status t = status told \<or> written_status new_status = Some (status t)"
      and "role user = Some ROLES_CUSTOMER \<or> role user = Some ROLES_STAFF \<Longrightarrow>
           status t = ''completed''"
proof (cases r)
  case (Create new_id user body)
  obtain res store' where c: "create users new_id store user body = (res, store')"
    by (cases "create users new_id store user body")
  show ?thesis
  proof (cases res)
    case (Inl e)
    with c Create have "step users store r = store"
      by (auto dest: create_Inl)
    then show ?thesis
      by (rule unchanged)
  next
    case (Inr t)
    with c have "create users new_id store user body = (Inr t, store')"
      by simp
    from create_Inr [OF this] c Create show ?thesis
      by (intro fresh [of new_id t]) auto
  qed
next
  case (Assign user body)
  obtain res store' where c: "assign store user body = (res, store')"
    by (cases "assign store user body")
  show ?thesis
  proof (cases res)
    case (Inl e)
    with c Assign have "step users store r = store"
      by (auto dest: assign_Inl)
    then show ?thesis
      by (rule unchanged)
  next
    case (Inr t')
    with c have "assign store user body = (Inr t', store')"
      by simp
    from assign_Inr [OF this] c Assign show ?thesis
      by (intro fresh [of "string_of (requestId body)" t']) auto
  qed
next
  case (UpdateStatus user i new_status)
  obtain res store' where c: "updateStatus store user i new_status = (res, store')"
    by (cases "updateStatus store user i new_status")
  show ?thesis
  proof (cases res)
    case (Inl e)
    with c UpdateStatus have "step users store r = store"
      by (auto dest: updateStatus_Inl)
    then show ?thesis
      by (rule unchanged)
  next
    case (Inr t')
    with c have u: "updateStatus store user i new_status = (Inr t', store')"
      by simp
    from updateStatus_Inr [OF u] obtain told where told: "store i = Some told"
      and t': "t' = told\<lparr>status := status t'\<rparr>" and v: "schema_valid t'"
      and w: "status t' = status told \<or> written_status new_status = Some (status t')"
      and s': "store' = store(i \<mapsto> t')"
      by blast
    from t' have a: "assignedTo t' = assignedTo told"
      by (cases told) (cases t', simp)
    from c s' UpdateStatus have st: "step users store r = store(i \<mapsto> t')"
      by simp
    show ?thesis
      using UpdateStatus told st v a w updateStatus_Inr_owner [OF _ u]
      by (rule updated)
  qed
qed

lemma step_valid_store:
  assumes "valid_store store"
  shows "valid_store (step users store r)"
proof (cases rule: step_cases [of users store r])
  case unchanged
  with assms show ?thesis
    by simp
next
  case (fresh i t)
  with assms show ?thesis
    by (auto simp: valid_store_def)
next
  case (updated user i new_status told t)
  with assms show ?thesis
    by (auto simp: valid_store_def)
qed

lemma run_valid_store: "valid_store store \<Longrightarrow> valid_store (run users store reqs)"
  unfolding run_def
  by (induction reqs arbitrary: store) (auto intro: step_valid_store)






section \<open>Status updates\<close>

text \<open>
  Claim C1. For an existing task and a customer or staff actor, \<open>updateStatus\<close> succeeds
  only if the actor owns the task and the requested status is \<open>completed\<close>; an actor who
  does not own the task gets \<open>Forbidden\<close> whatever the requested status, and an owner
  who asks for anything but \<open>completed\<close> gets \<open>Forbidden\<close> too. An owner who asks for
  \<open>completed\<close> on a task that passes the schema gets the task back, completed.
\<close>

theorem updateStatus_owner_completed_only:
  assumes "store i = Some t"
    and "role user = Some ROLES_CUSTOMER \<or> role user = Some ROLES_STAFF"
  shows "(updateStatus store user i new_status = (Inr t', store') \<longrightarrow>
            owns user t \<and> new_status = JStr ''completed'') \<and>
         (\<not> owns user t \<longrightarrow> updateStatus store user i new_status = (Inl Forbidden, store)) \<and>
         (owns user t \<and> new_status \<noteq> JStr ''completed'' \<longrightarrow>
            updateStatus store user i new_status = (Inl Forbidden, store)) \<and>
         (owns user t \<and> new_status = JStr ''completed'' \<and> schema_valid t \<longrightarrow>
            updateStatus store user i new_status =
              (Inr (t\<lparr>status := ''completed''\<rparr>), store(i \<mapsto> t\<lparr>status := ''completed''\<rparr>)))"
  using assms owns_canUpdate [OF assms(2), of t]
  by (auto simp: updateStatus_def save_def schema_valid_def status_enum_def)

theorem updateStatus_owner_completed_only_witness:
  "fst (updateStatus [''t1'' \<mapsto> pickup] carl ''t1'' (JStr ''completed'')) =
     Inr (pickup\<lparr>status := ''completed''\<rparr>) \<and>
   fst (updateStatus [''t1'' \<mapsto> pickup] carl ''t1'' (JStr ''in progress'')) = Inl Forbidden \<and>
   fst (updateStatus [''t1'' \<mapsto> pickup] tess ''t1'' (JStr ''completed'')) = Inl Forbidden"
  using updateStatus_owner_completed_only
      [of "[''t1'' \<mapsto> pickup]" "''t1''" pickup carl "JStr ''completed''"]
    updateStatus_owner_completed_only
      [of "[''t1'' \<mapsto> pickup]" "''t1''" pickup carl "JStr ''in progress''"]
    updateStatus_owner_completed_only
      [of "[''t1'' \<mapsto> pickup]" "''t1''" pickup tess "JStr ''completed''"]
  by (simp add: owns_def carl_def tess_def pickup_def roles_defs schema_valid_def
      status_enum_def roleType_enum_def)

text \<open>
  Claim C8. A successful \<open>updateStatus\<close> changes nothing but \<open>status\<close>: the customer, the
  title, the description, the due date, the role type, the creator and the assignment
  of the answered task are those of the stored one, and the store is the old one with
  the answered task written under the same identifier.
\<close>

theorem updateStatus_frame:
  assumes "store i = Some t"
    and "updateStatus store user i new_status = (Inr t', store')"
  shows "customerId t' = customerId t \<and> customerName t' = customerName t \<and>
         title t' = title t \<and> description t' = description t \<and> dueDate t' = dueDate t \<and>
         roleType t' = roleType t \<and> createdBy t' = createdBy t \<and>
         assignedTo t' = assignedTo t \<and> assignedName t' = assignedName t \<and>
         t' = t\<lparr>status := status t'\<rparr> \<and> store' = store(i \<mapsto> t')"
  using assms
  by (auto simp: updateStatus_def save_def split: if_splits json.splits option.splits)

theorem updateStatus_frame_witness:
  "customerId (pickup\<lparr>status := ''in progress''\<rparr>) = customerId pickup \<and>
   assignedTo (pickup\<lparr>status := ''in progress''\<rparr>) = assignedTo pickup \<and>
   fst (updateStatus [''t1'' \<mapsto> pickup] mona ''t1'' (JStr ''in progress'')) =
     Inr (pickup\<lparr>status := ''in progress''\<rparr>)"
proof -
  have s: "[''t1'' \<mapsto> pickup] ''t1'' = Some pickup"
    by simp
  have u: "updateStatus [''t1'' \<mapsto> pickup] mona ''t1'' (JStr ''in progress'') =
      (Inr (pickup\<lparr>status := ''in progress''\<rparr>),
       [''t1'' \<mapsto> pickup\<lparr>status := ''in progress''\<rparr>])"
    by (simp add: eval_defs)
  from updateStatus_frame
      [of "[''t1'' \<mapsto> pickup]" "''t1''" pickup mona "JStr ''in progress''", OF s u] u
  show ?thesis
    by simp
qed

text \<open>
  Claim C10. For an existing task that passes the schema and an admin or a manager, a
  status that is missing, empty or falsy in another way (\<open>null\<close>, \<open>false\<close>, \<open>0\<close>) is no
  error: the answer is the task as it was, and the store is unchanged.
\<close>

theorem updateStatus_falsy_noop:
  assumes "role user = Some ROLES_ADMIN \<or> role user = Some ROLES_MANAGER"
    and "store i = Some t" and "schema_valid t"
    and "\<not> json_truthy new_status"
  shows "updateStatus store user i new_status = (Inr t, store)"
proof -
  have "store(i \<mapsto> t) = store"
    using assms(2) by (rule map_upd_triv)
  moreover have "new_status \<noteq> JStr ''completed''"
    using assms(4) by auto
  ultimately show ?thesis
    using assms by (auto simp: updateStatus_def save_def roles_defs)
qed

theorem updateStatus_falsy_noop_witness:
  "updateStatus [''t1'' \<mapsto> done_pickup] mona ''t1'' JUndefined =
     (Inr done_pickup, [''t1'' \<mapsto> done_pickup]) \<and>
   updateStatus [''t1'' \<mapsto> done_pickup] mona ''t1'' (JStr []) =
     (Inr done_pickup, [''t1'' \<mapsto> done_pickup]) \<and>
   updateStatus [''t1'' \<mapsto> done_pickup] mona ''t1'' (JNum 0) =
     (Inr done_pickup, [''t1'' \<mapsto> done_pickup])"
proof -
  have r: "role mona = Some ROLES_ADMIN \<or> role mona = Some ROLES_MANAGER"
    by (simp add: mona_def roles_defs)
  have s: "[''t1'' \<mapsto> done_pickup] ''t1'' = Some done_pickup"
    by simp
  have v: "schema_valid done_pickup"
    by (simp add: done_pickup_def pickup_def schema_valid_def status_enum_def
        roleType_enum_def)
  show ?thesis
    using updateStatus_falsy_noop
        [of mona "[''t1'' \<mapsto> done_pickup]" "''t1''" done_pickup JUndefined, OF r s v]
      updateStatus_falsy_noop
        [of mona "[''t1'' \<mapsto> done_pickup]" "''t1''" done_pickup "JStr []", OF r s v]
      updateStatus_falsy_noop
        [of mona "[''t1'' \<mapsto> done_pickup]" "''t1''" done_pickup "JNum 0", OF r s v]
    by simp
qed

section \<open>Creation\<close>

text \<open>
  Claim C3. A task created by a customer has the customer's own identifier as
  \<open>customerId\<close>, whatever \<open>customerId\<close> the payload carries; the payload's value is used
  only when the actor is not a customer.
\<close>

theorem create_customerId:
  assumes "create users new_id store user body = (Inr t, store')"
  shows "customerId t =
           (if role user = Some ROLES_CUSTOMER then uid user
            else string_of (bodyCustomerId body))"
  using assms
  by (auto simp: create_def Let_def save_def string_of_def split: if_splits option.splits)

theorem create_customerId_witness:
  "bodyCustomerId other_customer_body = Some ''c9'' \<and>
   create people ''t1'' Map.empty carl other_customer_body = (Inr pickup, [''t1'' \<mapsto> pickup]) \<and>
   customerId pickup = uid carl"
proof -
  have c: "create people ''t1'' Map.empty carl other_customer_body =
      (Inr pickup, [''t1'' \<mapsto> pickup])"
    by (simp add: eval_defs)
  from create_customerId [OF c] c show ?thesis
    by (simp add: carl_def other_customer_body_def roles_defs)
qed

section \<open>Assignment\<close>

text \<open>
  Claim C2, as the code has it. Take an admin or a manager, an existing task that passes
  the schema, in any status, and non-empty \<open>requestId\<close>, \<open>staffId\<close> and \<open>staffName\<close>.
  When \<open>staffId\<close> is a well-formed identifier, 24 hexadecimal digits, \<open>assign\<close> answers
  and stores the task with \<open>assignedTo\<close> that identifier in lower case, \<open>assignedName\<close>
  the staff name without the white space around it, \<open>roleType = "staff"\<close> and
  \<open>status = "assigned"\<close>. When \<open>staffId\<close> is anything else the answer is the store's
  error and the task stays as it was. A staff name that neither begins nor ends with
  white space is its own trimmed form.
\<close>

theorem assign_overwrites:
  assumes "role user = Some ROLES_ADMIN \<or> role user = Some ROLES_MANAGER"
    and "requestId body = Some i" and "i \<noteq> []"
    and "staffId body = Some sid" and "sid \<noteq> []"
    and "staffName body = Some sname" and "sname \<noteq> []"
    and "store i = Some t" and "schema_valid t"
  shows "(length sid = 24 \<and> list_all isHexDigit sid \<longrightarrow>
            assign store user body =
              (Inr (t\<lparr>assignedTo := Some (toLowerCase sid), assignedName := trim sname,
                      roleType := ''staff'', status := ''assigned''\<rparr>),
               store(i \<mapsto> t\<lparr>assignedTo := Some (toLowerCase sid), assignedName := trim sname,
                               roleType := ''staff'', status := ''assigned''\<rparr>))) \<and>
         (\<not> (length sid = 24 \<and> list_all isHexDigit sid) \<longrightarrow>
            assign store user body = (Inl StoreError, store)) \<and>
         (\<not> spaced sname \<longrightarrow> trim sname = sname)"
  using assms gate_elevated [OF assms(1)] trim_unspaced [of sname]
  by (auto simp: assign_def assign_handler_def save_def string_of_def schema_valid_def
      status_enum_def roleType_enum_def castObjectId_def)

theorem assign_overwrites_witness:
  "fst (assign [''t1'' \<mapsto> done_pickup] mona to_sam_upper) =
     Inr (done_pickup\<lparr>assignedTo := Some sam_id, assignedName := ''Sam'',
                      roleType := ''staff'', status := ''assigned''\<rparr>) \<and>
   fst (assign [''t1'' \<mapsto> done_pickup] mona to_xyz) = Inl StoreError \<and>
   trim ''Sam'' = ''Sam''"
proof -
  have r: "role mona = Some ROLES_ADMIN \<or> role mona = Some ROLES_MANAGER"
    by (simp add: mona_def roles_defs)
  have s: "[''t1'' \<mapsto> done_pickup] ''t1'' = Some done_pickup"
    by simp
  have v: "schema_valid done_pickup"
    by (simp add: done_pickup_def pickup_def schema_valid_def status_enum_def
        roleType_enum_def)
  have h: "length ''64B7F0C2A1D3E4F5A6B7C8D9'' = 24 \<and>
      list_all isHexDigit ''64B7F0C2A1D3E4F5A6B7C8D9''"
    by code_simp
  have l: "toLowerCase ''64B7F0C2A1D3E4F5A6B7C8D9'' = sam_id"
    unfolding sam_id_def by code_simp
  have x: "\<not> (length ''xyz'' = 24 \<and> list_all isHexDigit ''xyz'')"
    by simp
  have n: "\<not> spaced ''Sam''"
    by code_simp
  show ?thesis
    using assign_overwrites
        [of mona to_sam_upper "''t1''" "''64B7F0C2A1D3E4F5A6B7C8D9''" "''Sam''"
          "[''t1'' \<mapsto> done_pickup]" done_pickup, OF r _ _ _ _ _ _ s v]
      assign_overwrites
        [of mona to_xyz "''t1''" "''xyz''" "''Sam''"
          "[''t1'' \<mapsto> done_pickup]" done_pickup, OF r _ _ _ _ _ _ s v]
      h l x n
    by (simp add: to_sam_upper_def to_xyz_def to_sam_def)
qed

text \<open>
  The claim as the spec states it has \<open>assignedTo = staffId\<close> and \<open>assignedName =
  staffName\<close> for every non-empty staff identifier and name. For the name \<open>" Sam"\<close>,
  with a space in front, the task is answered and stored with \<open>assignedName = "Sam"\<close>.
  For an identifier written in upper case the task is stored with the identifier in
  lower case. For the staff identifier \<open>"xyz"\<close> nothing is assigned: the answer is the
  store's error.
\<close>

theorem assign_trims_name_counterexample:
  "staffName to_sam_spaced = Some '' Sam'' \<and>
   fst (assign [''t1'' \<mapsto> done_pickup] mona to_sam_spaced) =
     Inr (done_pickup\<lparr>assignedTo := Some sam_id, assignedName := ''Sam'',
                      roleType := ''staff'', status := ''assigned''\<rparr>) \<and>
   ''Sam'' \<noteq> '' Sam'' \<and>
   staffId to_sam_upper = Some ''64B7F0C2A1D3E4F5A6B7C8D9'' \<and>
   fst (assign [''t1'' \<mapsto> done_pickup] mona to_sam_upper) =
     Inr (done_pickup\<lparr>assignedTo := Some ''64b7f0c2a1d3e4f5a6b7c8d9'', assignedName := ''Sam'',
                      roleType := ''staff'', status := ''assigned''\<rparr>) \<and>
   ''64b7f0c2a1d3e4f5a6b7c8d9'' \<noteq> ''64B7F0C2A1D3E4F5A6B7C8D9'' \<and>
   staffId to_xyz = Some ''xyz'' \<and>
   assign [''t1'' \<mapsto> done_pickup] mona to_xyz = (Inl StoreError, [''t1'' \<mapsto> done_pickup])"
  by (simp add: eval_defs)

section \<open>The lifecycle\<close>

text \<open>
  Claim C6, as the code has it. The status does not move back under these operations: a
  created task starts at \<open>pending\<close>, the first state; a successful \<open>updateStatus\<close> by a
  customer or a staff member leaves the task at \<open>completed\<close>, the last state; a
  successful \<open>assign\<close> on a task that is \<open>pending\<close> or \<open>assigned\<close> leaves it at
  \<open>assigned\<close>. Nothing is said about \<open>assign\<close> on a task that is further on, nor about
  \<open>updateStatus\<close> by an admin or a manager.
\<close>

theorem status_forward_steps:
  "(create users new_id store user body = (Inr t', store') \<longrightarrow>
      status t' = ''pending'' \<and> status_rank (status t') = 0) \<and>
   (store i = Some t \<and> status t \<in> set status_enum \<and>
    (role user = Some ROLES_CUSTOMER \<or> role user = Some ROLES_STAFF) \<and>
    updateStatus store user i new_status = (Inr t', store') \<longrightarrow>
      status t' = ''completed'' \<and> status_rank (status t) \<le> status_rank (status t')) \<and>
   (store (string_of (requestId abody)) = Some t \<and> status t \<in> {''pending'', ''assigned''} \<and>
    assign store user abody = (Inr t', store') \<longrightarrow>
      status t' = ''assigned'' \<and> status_rank (status t) \<le> status_rank (status t'))"
proof (intro conjI)
  show "create users new_id store user body = (Inr t', store') \<longrightarrow>
      status t' = ''pending'' \<and> status_rank (status t') = 0"
    by (auto dest: create_Inr simp: status_rank_def status_enum_def)
next
  show "store i = Some t \<and> status t \<in> set status_enum \<and>
    (role user = Some ROLES_CUSTOMER \<or> role user = Some ROLES_STAFF) \<and>
    updateStatus store user i new_status = (Inr t', store') \<longrightarrow>
      status t' = ''completed'' \<and> status_rank (status t) \<le> status_rank (status t')"
  proof
    assume a: "store i = Some t \<and> status t \<in> set status_enum \<and>
      (role user = Some ROLES_CUSTOMER \<or> role user = Some ROLES_STAFF) \<and>
      updateStatus store user i new_status = (Inr t', store')"
    then have "status t' = ''completed''"
      using updateStatus_Inr_owner [of user store i new_status t' store'] by simp
    with a show "status t' = ''completed'' \<and> status_rank (status t) \<le> status_rank (status t')"
      by (simp add: rank_completed)
  qed
next
  show "store (string_of (requestId abody)) = Some t \<and>
    status t \<in> {''pending'', ''assigned''} \<and> assign store user abody = (Inr t', store') \<longrightarrow>
      status t' = ''assigned'' \<and> status_rank (status t) \<le> status_rank (status t')"
  proof
    assume a: "store (string_of (requestId abody)) = Some t \<and>
      status t \<in> {''pending'', ''assigned''} \<and> assign store user abody = (Inr t', store')"
    then have "status t' = ''assigned''"
      by (auto dest: assign_Inr)
    with a show "status t' = ''assigned'' \<and> status_rank (status t) \<le> status_rank (status t')"
      by (auto simp: status_rank_def status_enum_def)
  qed
qed

theorem status_forward_steps_witness:
  "fst (create people ''t1'' Map.empty carl pickup_body) = Inr pickup \<and>
   status_rank (status pickup) = 0 \<and>
   fst (updateStatus [''t1'' \<mapsto> pickup] carl ''t1'' (JStr ''completed'')) =
     Inr (pickup\<lparr>status := ''completed''\<rparr>) \<and>
   status_rank (status pickup) \<le> status_rank (status (pickup\<lparr>status := ''completed''\<rparr>)) \<and>
   fst (assign [''t1'' \<mapsto> pickup] mona to_sam) =
     Inr (pickup\<lparr>assignedTo := Some sam_id, assignedName := ''Sam'',
                 roleType := ''staff'', status := ''assigned''\<rparr>) \<and>
   status_rank (status pickup) \<le> status_rank ''assigned''"
proof -
  have c: "create people ''t1'' Map.empty carl pickup_body = (Inr pickup, [''t1'' \<mapsto> pickup])"
    by (simp add: eval_defs)
  have u: "updateStatus [''t1'' \<mapsto> pickup] carl ''t1'' (JStr ''completed'') =
      (Inr (pickup\<lparr>status := ''completed''\<rparr>), [''t1'' \<mapsto> pickup\<lparr>status := ''completed''\<rparr>])"
    by (simp add: eval_defs)
  have a: "assign [''t1'' \<mapsto> pickup] mona to_sam =
      (Inr (pickup\<lparr>assignedTo := Some sam_id, assignedName := ''Sam'',
                   roleType := ''staff'', status := ''assigned''\<rparr>),
       [''t1'' \<mapsto> pickup\<lparr>assignedTo := Some sam_id, assignedName := ''Sam'',
                           roleType := ''staff'', status := ''assigned''\<rparr>])"
    by (simp add: eval_defs)
  have p: "status pickup = ''pending''"
    by (simp add: pickup_def)
  show ?thesis
    using status_forward_steps
        [of people "''t1''" Map.empty carl pickup_body pickup "[''t1'' \<mapsto> pickup]"]
      status_forward_steps
        [of _ _ "[''t1'' \<mapsto> pickup]" carl _ "pickup\<lparr>status := ''completed''\<rparr>"
          "[''t1'' \<mapsto> pickup\<lparr>status := ''completed''\<rparr>]" "''t1''" pickup
          "JStr ''completed''"]
      status_forward_steps
        [of _ _ "[''t1'' \<mapsto> pickup]" mona _
          "pickup\<lparr>assignedTo := Some sam_id, assignedName := ''Sam'',
                   roleType := ''staff'', status := ''assigned''\<rparr>"
          "[''t1'' \<mapsto> pickup\<lparr>assignedTo := Some sam_id, assignedName := ''Sam'',
                           roleType := ''staff'', status := ''assigned''\<rparr>]"
          _ pickup _ to_sam]
      c u a p
    by (simp add: carl_def roles_defs status_enum_def to_sam_def string_of_def)
qed

text \<open>
  The claim as the spec states it lets no operation move the status back. \<open>assign\<close> on a
  completed task answers it with status \<open>assigned\<close>, and an \<open>updateStatus\<close> by a manager
  sets a completed task back to \<open>pending\<close>.
\<close>

theorem assign_regresses_counterexample:
  "status done_pickup = ''completed'' \<and>
   fst (assign [''t1'' \<mapsto> done_pickup] mona to_sam) =
     Inr (done_pickup\<lparr>assignedTo := Some sam_id, assignedName := ''Sam'',
                      roleType := ''staff'', status := ''assigned''\<rparr>) \<and>
   status_rank ''assigned'' < status_rank ''completed'' \<and>
   fst (updateStatus [''t1'' \<mapsto> done_pickup] mona ''t1'' (JStr ''pending'')) =
     Inr (done_pickup\<lparr>status := ''pending''\<rparr>) \<and>
   status_rank ''pending'' < status_rank ''completed''"
  by (simp add: eval_defs status_rank_def)




end
